theory Spec2Isabelle
  imports Complex_Main "HOL-Library.Word"
begin

section \<open>Data model of account.go\<close>

text \<open>
  Go's fixed-width integers are words: \<open>int32\<close>, \<open>uint32\<close>, \<open>int64\<close> and \<open>uint64\<close>
  wrap around, and \<open>sint\<close> reads the signed ones. Byte slices and the fixed-size byte
  arrays (\<open>btcwire.ShaHash\<close>, the 20-byte address hash) are lists of bytes. The
  parameter \<open>confirms\<close> has Go's type \<open>int\<close>; it is only ever compared, so it is
  an \<open>int\<close> here.
\<close>

type_synonym int32 = "32 word"
type_synonym uint32 = "32 word"
type_synonym int64 = "64 word"
type_synonym uint64 = "64 word"
type_synonym bytes = "8 word list"

text \<open>\<open>btcwire.OutPoint\<close>: a transaction hash and an output index.\<close>

record OutPoint =
  Hash :: bytes
  Index :: uint32

text \<open>\<open>tx.Utxo\<close>, with the fields account.go reads and writes.\<close>

record Utxo =
  AddrHash :: bytes
  Out :: OutPoint
  Subscript :: bytes
  Amt :: uint64
  Height :: int32
  BlockHash :: bytes

text \<open>\<open>wallet.BlockStamp\<close>: the height and hash of a block.\<close>

record BlockStamp =
  bsHeight :: int32
  bsHash :: bytes

text \<open>\<open>tx.RecvTx\<close>, as the new-transaction handler builds it.\<close>

record RecvTx =
  TxID :: bytes
  TxOutIdx :: uint32
  TimeReceived :: int64
  BlockHeight :: int32
  RBlockHash :: bytes
  BlockIndex :: int32
  BlockTime :: int64
  Amount :: int64
  ReceiverHash :: bytes

text \<open>
  \<open>tx.SendTx\<close>: account.go never looks inside one, so only its transaction id is kept.
  The \<open>TxStore\<close> is a sequence of either kind of record.
\<close>

record SendTx =
  STxID :: bytes

datatype TxRecord = RecvTxRecord RecvTx | SendTxRecord SendTx

text \<open>
  Go errors. \<open>ErrNotFound\<close> and the two errors \<open>ImportWIFPrivateKey\<close> builds are
  account.go's own; \<open>ExternalError\<close> stands for an error handed back by a collaborator
  (btcutil, btcwire, the wallet, the disk).
\<close>

datatype error =
    ErrNotFound
  | ErrWrongNetwork
  | ErrImportFailed error
  | ExternalError string

text \<open>\<open>btcwire.BitcoinNet\<close>, the network a key or a wallet belongs to.\<close>

datatype BitcoinNet = MainNet | TestNet3

text \<open>
  A value decoded from JSON into Go's \<open>interface{}\<close>: \<open>nil\<close>, a bool, a \<open>float64\<close>
  (every JSON number; the finite values are reals), a string, a
  \<open>map[string]interface{}\<close> or a slice.
\<close>

datatype json =
    JNil
  | JBool bool
  | JNum real
  | JStr string
  | JMap "(string \<times> json) list"
  | JArr "json list"

text \<open>\<open>btcjson.Error\<close>.\<close>

record btcjsonError =
  Code :: int
  Message :: string

text \<open>The type assertions of the handlers: \<open>v[k].(string)\<close>, \<open>v[k].(float64)\<close>, \<open>v[k].(bool)\<close>.\<close>

definition as_string :: "(string \<times> json) list \<Rightarrow> string \<Rightarrow> string option" where
  "as_string v k = (case map_of v k of Some (JStr s) \<Rightarrow> Some s | _ \<Rightarrow> None)"

definition as_float64 :: "(string \<times> json) list \<Rightarrow> string \<Rightarrow> real option" where
  "as_float64 v k = (case map_of v k of Some (JNum x) \<Rightarrow> Some x | _ \<Rightarrow> None)"

definition as_bool :: "(string \<times> json) list \<Rightarrow> string \<Rightarrow> bool option" where
  "as_bool v k = (case map_of v k of Some (JBool b) \<Rightarrow> Some b | _ \<Rightarrow> None)"

text \<open>
  Go's conversion of a \<open>float64\<close> to an integer type drops the fraction. For a value
  the integer type cannot hold Go leaves the result to the implementation; the model
  wraps.
\<close>

definition float_trunc :: "real \<Rightarrow> int" where
  "float_trunc x = (if 0 \<le> x then \<lfloor>x\<rfloor> else \<lceil>x\<rceil>)"

definition to_int32 :: "real \<Rightarrow> int32" where
  "to_int32 x = word_of_int (float_trunc x)"

definition to_uint32 :: "real \<Rightarrow> uint32" where
  "to_uint32 x = word_of_int (float_trunc x)"

definition to_int64 :: "real \<Rightarrow> int64" where
  "to_int64 x = word_of_int (float_trunc x)"

definition to_uint64 :: "real \<Rightarrow> uint64" where
  "to_uint64 x = word_of_int (float_trunc x)"

text \<open>
  What the account sends out, in the order it happens: log lines, notifications to the
  frontends, messages to btcd, calls into the wallet that change its lock state or its
  synced-with block, writes to disk, and the rendezvous with the coordinating goroutines
  of the new-transaction handler.
\<close>

datatype btcdCmd =
    RescanCmd uint64 int32 "string set"
  | NotifyNewTXsCmd uint64 "string list"
  | NotifySpentCmd uint64 OutPoint

datatype event =
    LogError string
  | LogInfo string
  | LogDebug string
  | NotifyWalletLockStateChange string bool
  | NotifyWalletBalance string real
  | NotifyWalletBalanceUnconfirmed string real
  | NotifyNewTxDetails string RecvTx int32
  | NotifyMinedTx RecvTx
  | BtcdMsg bytes
  | WalletUnlockCall bytes
  | WalletSetSyncedWithCall BlockStamp
  | WriteDirtyToDiskCall
  | BalanceSyncerAdd bytes
  | BalanceSyncerDone bytes
  | SendTxHistWait bytes

text \<open>
  \<open>Account\<close>: the embedded \<open>*wallet.Wallet\<close> (a collaborator, of any type \<open>'w\<close>), the
  flags and JSON ids, and the two stores with their dirty flags. The mutexes are left
  out: the model runs one call at a time.
\<close>

record 'w Account =
  Wallet :: 'w
  name :: string
  dirty :: bool
  fullRescan :: bool
  NewBlockTxJSONID :: uint64
  SpentOutpointJSONID :: uint64
  UtxoStore_dirty :: bool
  UtxoStore_s :: "Utxo list"
  TxStore_dirty :: bool
  TxStore_s :: "TxRecord list"

text \<open>
  The collaborators account.go calls and does not define: the chain tip
  (\<open>GetCurBlock\<close>), the wallet's methods, btcutil's and btcwire's decoders, the JSON
  encoder of the btcd commands, the clock and \<open>writeDirtyToDisk\<close>. Each is a function
  that returns its result and, where it changes something, the changed wallet or
  account.
\<close>

record 'w env =
  GetCurBlock :: "BlockStamp \<times> error option"
  walletUnlock :: "bytes \<Rightarrow> 'w \<Rightarrow> error option \<times> 'w"
  walletName :: "'w \<Rightarrow> string"
  walletNet :: "'w \<Rightarrow> BitcoinNet"
  walletImportPrivateKey :: "bytes \<Rightarrow> bool \<Rightarrow> BlockStamp \<Rightarrow> 'w \<Rightarrow> (error + string) \<times> 'w"
  walletNextChainedAddress :: "BlockStamp \<Rightarrow> 'w \<Rightarrow> (error + string) \<times> 'w"
  walletSetSyncedWith :: "BlockStamp \<Rightarrow> 'w \<Rightarrow> 'w"
  walletActiveAddresses :: "'w \<Rightarrow> string list"
  DecodePrivateKey :: "string \<Rightarrow> error + (bytes \<times> BitcoinNet \<times> bool)"
  DecodeAddress :: "string \<Rightarrow> error + bytes"
  NewShaHashFromStr :: "string \<Rightarrow> error + bytes"
  Base58Decode :: "string \<Rightarrow> bytes"
  NewRescanCmd :: "uint64 \<Rightarrow> int32 \<Rightarrow> string set \<Rightarrow> error + btcdCmd"
  MarshalJSON :: "btcdCmd \<Rightarrow> bytes \<times> error option"
  timeNow :: int64
  writeDirtyToDisk :: "'w Account \<Rightarrow> error option \<times> 'w Account"

text \<open>
  Two constants of btcutil: \<open>BlockHeightUnknown\<close> is \<open>-1\<close> and \<open>SatoshiPerBitcoin\<close> is
  \<open>1e8\<close>.
\<close>

definition BlockHeightUnknown :: int32 where
  "BlockHeightUnknown = - 1"

definition SatoshiPerBitcoin :: real where
  "SatoshiPerBitcoin = 100000000"

section \<open>Balances\<close>

text \<open>
  The test both balance loops apply to a stored output \<open>u\<close>:
  \<open>confirms == 0 || (u.Height != -1 && int(bs.Height-u.Height+1) >= confirms)\<close>.
  The subtraction and the addition are \<open>int32\<close> operations, so they wrap; \<open>int(...)\<close>
  then reads the result as a signed number.
\<close>

definition counted :: "int32 \<Rightarrow> int \<Rightarrow> Utxo \<Rightarrow> bool" where
  "counted tip confirms u =
     (confirms = 0 \<or> (Height u \<noteq> - 1 \<and> confirms \<le> sint (tip - Height u + 1)))"

text \<open>
  The loop of \<open>CalculateBalance\<close> over the store, with the running \<open>uint64\<close> total
  \<open>bal\<close> (in satoshi; \<open>+=\<close> wraps).
\<close>

fun balance_loop :: "int32 \<Rightarrow> int \<Rightarrow> Utxo list \<Rightarrow> uint64 \<Rightarrow> uint64" where
  "balance_loop tip confirms [] bal = bal"
| "balance_loop tip confirms (u # us) bal =
     balance_loop tip confirms us (if counted tip confirms u then bal + Amt u else bal)"

text \<open>The loop of \<open>CalculateAddressBalance\<close>, with its inner test on the address hash.\<close>

fun address_balance_loop :: "int32 \<Rightarrow> bytes \<Rightarrow> int \<Rightarrow> Utxo list \<Rightarrow> uint64 \<Rightarrow> uint64" where
  "address_balance_loop tip pubkeyHash confirms [] bal = bal"
| "address_balance_loop tip pubkeyHash confirms (u # us) bal =
     address_balance_loop tip pubkeyHash confirms us
       (if counted tip confirms u
        then (if pubkeyHash = AddrHash u then bal + Amt u else bal)
        else bal)"

text \<open>
  The result \<open>float64(bal) / float64(btcutil.SatoshiPerBitcoin)\<close> is given as the exact
  quotient: the rounding of the two \<open>float64\<close> operations is not modelled. Both
  functions return 0 when the chain tip is unknown or \<open>GetCurBlock\<close> fails.
\<close>

definition satoshi_to_btc :: "uint64 \<Rightarrow> real" where
  "satoshi_to_btc bal = real (unat bal) / SatoshiPerBitcoin"

definition CalculateBalance :: "'w env \<Rightarrow> 'w Account \<Rightarrow> int \<Rightarrow> real" where
  "CalculateBalance E a confirms =
     (case GetCurBlock E of (bs, err) \<Rightarrow>
        if bsHeight bs = BlockHeightUnknown \<or> err \<noteq> None then 0
        else satoshi_to_btc (balance_loop (bsHeight bs) confirms (UtxoStore_s a) 0))"

definition CalculateAddressBalance :: "'w env \<Rightarrow> 'w Account \<Rightarrow> bytes \<Rightarrow> int \<Rightarrow> real" where
  "CalculateAddressBalance E a pubkeyHash confirms =
     (case GetCurBlock E of (bs, err) \<Rightarrow>
        if bsHeight bs = BlockHeightUnknown \<or> err \<noteq> None then 0
        else satoshi_to_btc
          (address_balance_loop (bsHeight bs) pubkeyHash confirms (UtxoStore_s a) 0))"

section \<open>Process-wide state\<close>

text \<open>
  A reply handler is a closure over the account; the three account.go registers are
  told apart by a tag.
\<close>

datatype Handler = NewBlockTxOutHandler | SpentUtxoHandler | RescanReplyHandler

text \<open>
  The state one account's methods work on: the account, the global
  \<open>addressAccountMap\<close>, the global \<open>replyHandlers\<close> map, and the events sent out so far.

  Modelled from the spec: three more globals, served by goroutines that are not among
  the sources and reached through channels. \<open>NewJSONID\<close> is the source of increasing
  request ids; \<open>SendTxHistSync\<close> holds the ids of the transactions whose sent history
  is being recorded; \<open>NotifiedRecvTx\<close> holds the outpoints whose unconfirmed receipt
  the frontends have been told of.
\<close>

record 'w world =
  acct :: "'w Account"
  addressAccountMap :: "string \<rightharpoonup> string"
  replyHandlers :: "uint64 \<rightharpoonup> Handler"
  NewJSONID :: uint64
  SendTxHistSync :: "bytes set"
  NotifiedRecvTx :: "OutPoint set"
  events :: "event list"

definition emit :: "event \<Rightarrow> 'w world \<Rightarrow> 'w world" where
  "emit ev w = w\<lparr>events := events w @ [ev]\<rparr>"

text \<open>\<open>MarkAddressForAccount\<close> and \<open>LookupAccountByAddress\<close>.\<close>

definition MarkAddressForAccount :: "string \<Rightarrow> string \<Rightarrow> 'w world \<Rightarrow> 'w world" where
  "MarkAddressForAccount address account w =
     w\<lparr>addressAccountMap := (addressAccountMap w)(address \<mapsto> account)\<rparr>"

definition LookupAccountByAddress :: "string \<Rightarrow> 'w world \<Rightarrow> error + string" where
  "LookupAccountByAddress address w =
     (case addressAccountMap w address of
        None \<Rightarrow> Inl ErrNotFound
      | Some account \<Rightarrow> Inr account)"

text \<open>
  The call \<open>a.writeDirtyToDisk()\<close>: the collaborator gets the account and hands back
  its error and the account as it left it.
\<close>

definition call_writeDirtyToDisk :: "'w env \<Rightarrow> 'w world \<Rightarrow> error option \<times> 'w world" where
  "call_writeDirtyToDisk E w =
     (case writeDirtyToDisk E (acct w) of
        (err, a') \<Rightarrow> (err, emit WriteDirtyToDiskCall (w\<lparr>acct := a'\<rparr>)))"

section \<open>Unlock\<close>

text \<open>
  \<open>Account.Unlock\<close>: the wallet's \<open>Unlock\<close> is called, the frontends are told when it
  succeeded, and the \<open>return\<close> statement calls the wallet's \<open>Unlock\<close> again. The
  \<open>timeout\<close> parameter is not used.
\<close>

definition call_walletUnlock :: "'w env \<Rightarrow> bytes \<Rightarrow> 'w world \<Rightarrow> error option \<times> 'w world" where
  "call_walletUnlock E passphrase w =
     (case walletUnlock E passphrase (Wallet (acct w)) of
        (err, wal) \<Rightarrow>
          (err, emit (WalletUnlockCall passphrase) (w\<lparr>acct := (acct w)\<lparr>Wallet := wal\<rparr>\<rparr>)))"

definition Unlock :: "'w env \<Rightarrow> bytes \<Rightarrow> int64 \<Rightarrow> 'w world \<Rightarrow> error option \<times> 'w world" where
  "Unlock E passphrase timeout w =
     (case call_walletUnlock E passphrase w of
        (err, w1) \<Rightarrow>
          call_walletUnlock E passphrase
            (if err = None
             then emit (NotifyWalletLockStateChange (walletName E (Wallet (acct w1))) False) w1
             else w1))"

section \<open>Importing a key and requesting a new address\<close>

text \<open>
  \<open>ImportWIFPrivateKey\<close>. The block stamp is handed to the wallet, which reads it.
\<close>

definition ImportWIFPrivateKey ::
  "'w env \<Rightarrow> string \<Rightarrow> BlockStamp \<Rightarrow> 'w world \<Rightarrow> (error + string) \<times> 'w world" where
  "ImportWIFPrivateKey E wif bs w =
     (case DecodePrivateKey E wif of
        Inl err \<Rightarrow> (Inl err, w)
      | Inr (privkey, net, compressed) \<Rightarrow>
          if net \<noteq> walletNet E (Wallet (acct w)) then (Inl ErrWrongNetwork, w)
          else
            (case walletImportPrivateKey E privkey compressed bs (Wallet (acct w)) of
               (Inl err, wal) \<Rightarrow> (Inl err, w\<lparr>acct := (acct w)\<lparr>Wallet := wal\<rparr>\<rparr>)
             | (Inr addr, wal) \<Rightarrow>
                 (case call_writeDirtyToDisk E
                         (w\<lparr>acct := (acct w)\<lparr>Wallet := wal, dirty := True\<rparr>\<rparr>) of
                    (Some err, w2) \<Rightarrow>
                      (Inl (ErrImportFailed err),
                       emit (LogError ''cannot write dirty wallet'') w2)
                  | (None, w2) \<Rightarrow>
                      (Inr addr,
                       emit (LogInfo ''Imported payment address'')
                         (MarkAddressForAccount addr (walletName E (Wallet (acct w2))) w2)))))"

text \<open>
  \<open>ReqNewTxsForAddress\<close>: when the command cannot be encoded the error is logged and
  the message is sent all the same.
\<close>

definition ReqNewTxsForAddress :: "'w env \<Rightarrow> string \<Rightarrow> 'w world \<Rightarrow> 'w world" where
  "ReqNewTxsForAddress E addr w =
     (case MarshalJSON E (NotifyNewTXsCmd (NewBlockTxJSONID (acct w)) [addr]) of
        (mcmd, err) \<Rightarrow>
          emit (BtcdMsg mcmd)
            ((if err \<noteq> None
              then emit (LogError ''cannot request transaction notifications'')
              else id)
               (emit (LogDebug ''Requesting notifications of TXs sending to address'') w)))"

text \<open>\<open>ReqSpentUtxoNtfn\<close>: here an encoding error ends the call.\<close>

definition ReqSpentUtxoNtfn :: "'w env \<Rightarrow> Utxo \<Rightarrow> 'w world \<Rightarrow> 'w world" where
  "ReqSpentUtxoNtfn E u w =
     (case MarshalJSON E (NotifySpentCmd (SpentOutpointJSONID (acct w)) (Out u)) of
        (mcmd, err) \<Rightarrow>
          (if err \<noteq> None
           then emit (LogError ''cannot create spent request'')
           else emit (BtcdMsg mcmd))
            (emit (LogDebug ''Requesting spent UTXO notifications for Outpoint'') w))"

text \<open>\<open>NewAddress\<close>.\<close>

definition NewAddress :: "'w env \<Rightarrow> 'w world \<Rightarrow> (error + string) \<times> 'w world" where
  "NewAddress E w =
     (case GetCurBlock E of
        (bs, Some err) \<Rightarrow> (Inl err, w)
      | (bs, None) \<Rightarrow>
          (case walletNextChainedAddress E bs (Wallet (acct w)) of
             (Inl err, wal) \<Rightarrow> (Inl err, w\<lparr>acct := (acct w)\<lparr>Wallet := wal\<rparr>\<rparr>)
           | (Inr addr, wal) \<Rightarrow>
               (case call_writeDirtyToDisk E
                       (w\<lparr>acct := (acct w)\<lparr>Wallet := wal, dirty := True\<rparr>\<rparr>) of
                  (err, w2) \<Rightarrow>
                    (Inr addr,
                     ReqNewTxsForAddress E addr
                       (MarkAddressForAccount addr (walletName E (Wallet (acct w2)))
                          ((if err \<noteq> None
                            then emit (LogError ''cannot sync dirty wallet'')
                            else id) w2))))))"

section \<open>The notification handlers\<close>

text \<open>
  \<open>spentUtxoHandler\<close>. After its checks the handler discards the hash and the index
  it has read (\<open>_, _ = txHash, index\<close>) and returns \<open>false\<close>.
\<close>

definition spentUtxoHandler ::
  "'w env \<Rightarrow> json \<Rightarrow> btcjsonError option \<Rightarrow> 'w world \<Rightarrow> bool \<times> 'w world" where
  "spentUtxoHandler E result e w =
     (case e of
        Some err \<Rightarrow> (False, emit (LogError ''Spent UTXO Handler: Error received from btcd'') w)
      | None \<Rightarrow>
          (case result of
             JMap v \<Rightarrow>
               (case as_string v ''txhash'' of
                  None \<Rightarrow>
                    (False, emit (LogError ''Spent UTXO Handler: Unspecified transaction hash.'') w)
                | Some txHashBE \<Rightarrow>
                    (case NewShaHashFromStr E txHashBE of
                       Inl err \<Rightarrow>
                         (False, emit (LogError ''Spent UTXO Handler: Bad transaction hash'') w)
                     | Inr txHash \<Rightarrow>
                         (case as_float64 v ''index'' of
                            None \<Rightarrow>
                              (False, emit (LogError ''Spent UTXO Handler: Unspecified index.'') w)
                          | Some index \<Rightarrow> (False, w))))
           | _ \<Rightarrow> (False, w)))"

text \<open>
  The fields the new-transaction handler reads from a notification before it changes
  anything. Each check that fails logs its message and ends the handler.
\<close>

record NewTxNtfn =
  n_receiverHash :: bytes
  n_height :: real
  n_blockHash :: bytes
  n_blockIndex :: int32
  n_blockTime :: int64
  n_txID :: bytes
  n_txOutIndex :: uint32
  n_amt :: real
  n_pkscript :: bytes
  n_spent :: bool

definition need :: "'a option \<Rightarrow> string \<Rightarrow> ('a \<Rightarrow> string + 'b) \<Rightarrow> string + 'b" where
  "need x msg k = (case x of None \<Rightarrow> Inl msg | Some y \<Rightarrow> k y)"

definition need_ok :: "error + 'a \<Rightarrow> string \<Rightarrow> ('a \<Rightarrow> string + 'b) \<Rightarrow> string + 'b" where
  "need_ok x msg k = (case x of Inl err \<Rightarrow> Inl msg | Inr y \<Rightarrow> k y)"

definition read_NewTxNtfn :: "'w env \<Rightarrow> (string \<times> json) list \<Rightarrow> string + NewTxNtfn" where
  "read_NewTxNtfn E v =
     need (as_string v ''receiver'') ''Tx Handler: Unspecified receiver.'' (\<lambda>receiver.
     need_ok (DecodeAddress E receiver) ''Tx Handler: receiver address can not be decoded''
       (\<lambda>receiverHash.
     need (as_float64 v ''height'') ''Tx Handler: Unspecified height.'' (\<lambda>height.
     need (as_string v ''blockhash'') ''Tx Handler: Unspecified block hash.'' (\<lambda>blockHashBE.
     need_ok (NewShaHashFromStr E blockHashBE) ''Tx Handler: Block hash string cannot be parsed''
       (\<lambda>blockHash.
     need (as_float64 v ''blockindex'') ''Tx Handler: Unspecified block index.'' (\<lambda>fblockIndex.
     need (as_float64 v ''blocktime'') ''Tx Handler: Unspecified block time.'' (\<lambda>fblockTime.
     need (as_string v ''txid'') ''Tx Handler: Unspecified transaction hash.'' (\<lambda>txhashBE.
     need_ok (NewShaHashFromStr E txhashBE) ''Tx Handler: Tx hash string cannot be parsed''
       (\<lambda>txID.
     need (as_float64 v ''txoutindex'') ''Tx Handler: Unspecified transaction output index.''
       (\<lambda>ftxOutIndex.
     need (as_float64 v ''amount'') ''Tx Handler: Unspecified amount.'' (\<lambda>amt.
     need (as_string v ''pkscript'') ''Tx Handler: Unspecified pubkey script.'' (\<lambda>pkscript58.
     Inr \<lparr>n_receiverHash = receiverHash, n_height = height, n_blockHash = blockHash,
          n_blockIndex = to_int32 fblockIndex, n_blockTime = to_int64 fblockTime,
          n_txID = txID, n_txOutIndex = to_uint32 ftxOutIndex, n_amt = amt,
          n_pkscript = Base58Decode E pkscript58,
          n_spent = (case as_bool v ''spent'' of Some tspent \<Rightarrow> tspent | None \<Rightarrow> False)\<rparr>
     ))))))))))))"

text \<open>
  Modelled from the spec: \<open>TxStore.InsertRecvTx\<close> of the tx package, which is not among
  the sources. The store is append-only and insertion order is its order.
\<close>

definition InsertRecvTx :: "RecvTx \<Rightarrow> TxRecord list \<Rightarrow> TxRecord list" where
  "InsertRecvTx t s = s @ [RecvTxRecord t]"

text \<open>
  Modelled from the spec: \<open>UtxoStore.Insert\<close> of the tx package, which is not among the
  sources. It adds the entry for the outpoint or replaces the one that is there; the
  last write wins.
\<close>

fun UtxoStore_Insert :: "Utxo \<Rightarrow> Utxo list \<Rightarrow> Utxo list" where
  "UtxoStore_Insert u [] = [u]"
| "UtxoStore_Insert u (v # vs) =
     (if Out v = Out u then u # vs else v # UtxoStore_Insert u vs)"

text \<open>Go's \<open>copy\<close> into a zeroed array of \<open>n\<close> bytes.\<close>

definition copy_into :: "nat \<Rightarrow> bytes \<Rightarrow> bytes" where
  "copy_into n src = take n (src @ replicate n 0)"

text \<open>
  The part of \<open>newBlockTxOutHandler\<close> after the checks, in the order of the source: the
  per-block balance gate for a transaction in a block (its release is deferred to the
  end), the \<open>RecvTx\<close>, the wait for the sent history of a transaction of this wallet,
  the insertion in the \<open>TxStore\<close>, the notification of the frontends, and for an unspent
  output the insertion in the \<open>UtxoStore\<close> with, when it is unconfirmed, the new
  unconfirmed balance. A wait on a channel is an event here: the model does not block.
\<close>

definition record_NewTx :: "'w env \<Rightarrow> NewTxNtfn \<Rightarrow> 'w world \<Rightarrow> 'w world" where
  "record_NewTx E n w =
     (let height32 = to_int32 (n_height n);
          w1 = (if height32 \<noteq> - 1 then emit (BalanceSyncerAdd (n_blockHash n)) w else w);
          t = \<lparr>TxID = n_txID n, TxOutIdx = n_txOutIndex n, TimeReceived = timeNow E,
               BlockHeight = height32, RBlockHash = n_blockHash n,
               BlockIndex = n_blockIndex n, BlockTime = n_blockTime n,
               Amount = to_int64 (n_amt n), ReceiverHash = n_receiverHash n\<rparr>;
          w2 = (if n_txID n \<in> SendTxHistSync w1
                then (emit (SendTxHistWait (n_txID n)) w1)
                       \<lparr>SendTxHistSync := SendTxHistSync w1 - {n_txID n}\<rparr>
                else w1);
          w3 = w2\<lparr>acct := (acct w2)\<lparr>TxStore_s := InsertRecvTx t (TxStore_s (acct w2)),
                                     TxStore_dirty := True\<rparr>\<rparr>;
          recvTxOP = \<lparr>Hash = n_txID n, Index = n_txOutIndex n\<rparr>;
          w4 = (if recvTxOP \<in> NotifiedRecvTx w3
                then (emit (NotifyMinedTx t) w3)
                       \<lparr>NotifiedRecvTx := NotifiedRecvTx w3 - {recvTxOP}\<rparr>
                else emit (NotifyNewTxDetails (walletName E (Wallet (acct w3))) t height32)
                       (w3\<lparr>NotifiedRecvTx := insert recvTxOP (NotifiedRecvTx w3)\<rparr>));
          w5 = (if \<not> n_spent n
                then
                  (let u = \<lparr>AddrHash = copy_into 20 (n_receiverHash n),
                            Out = \<lparr>Hash = copy_into 32 (n_txID n), Index = n_txOutIndex n\<rparr>,
                            Subscript = n_pkscript n, Amt = to_uint64 (n_amt n),
                            Height = height32, BlockHash = copy_into 32 (n_blockHash n)\<rparr>;
                       w6 = w4\<lparr>acct := (acct w4)
                              \<lparr>UtxoStore_s := UtxoStore_Insert u (UtxoStore_s (acct w4)),
                               UtxoStore_dirty := True\<rparr>\<rparr>
                   in if Height u = - 1
                      then emit (NotifyWalletBalanceUnconfirmed (name (acct w6))
                                   (CalculateBalance E (acct w6) 0 - CalculateBalance E (acct w6) 1))
                             w6
                      else w6)
                else w4)
      in if height32 \<noteq> - 1 then emit (BalanceSyncerDone (n_blockHash n)) w5 else w5)"

text \<open>\<open>newBlockTxOutHandler\<close>.\<close>

definition newBlockTxOutHandler ::
  "'w env \<Rightarrow> json \<Rightarrow> btcjsonError option \<Rightarrow> 'w world \<Rightarrow> bool \<times> 'w world" where
  "newBlockTxOutHandler E result e w =
     (case e of
        Some err \<Rightarrow> (False, emit (LogError ''Tx Handler: Error received from btcd'') w)
      | None \<Rightarrow>
          (case result of
             JMap v \<Rightarrow>
               (case read_NewTxNtfn E v of
                  Inl msg \<Rightarrow> (False, emit (LogError msg) w)
                | Inr n \<Rightarrow> (False, record_NewTx E n w))
           | JNil \<Rightarrow> (False, w)
           | _ \<Rightarrow> (False, emit (LogError ''Tx Handler: Unexpected result type'') w)))"

section \<open>Rescan\<close>

text \<open>
  The reply handler \<open>RescanAddresses\<close> registers. Every result goes through
  \<open>newBlockTxOutHandler\<close> first, whose return value is dropped. For a result that is
  not \<open>nil\<close> the balances are sent to the frontends and the handler returns \<open>false\<close>.
  For \<open>nil\<close> the account is marked as synced with the current block, when there is
  one, and written to disk, and the handler returns \<open>true\<close>.
\<close>

definition rescanReplyHandler ::
  "'w env \<Rightarrow> json \<Rightarrow> btcjsonError option \<Rightarrow> 'w world \<Rightarrow> bool \<times> 'w world" where
  "rescanReplyHandler E result e w =
     (case newBlockTxOutHandler E result e w of
        (ignored, w1) \<Rightarrow>
          if result \<noteq> JNil
          then
            (let confirmed = CalculateBalance E (acct w1) 1;
                 unconfirmed = CalculateBalance E (acct w1) 0 - confirmed
             in (False,
                 emit (NotifyWalletBalanceUnconfirmed (name (acct w1)) unconfirmed)
                   (emit (NotifyWalletBalance (name (acct w1)) confirmed) w1)))
          else
            (case GetCurBlock E of
               (bs, Some err) \<Rightarrow> (True, w1)
             | (bs, None) \<Rightarrow>
                 (case call_writeDirtyToDisk E
                         (emit (WalletSetSyncedWithCall bs)
                            (w1\<lparr>acct := (acct w1)
                                 \<lparr>Wallet := walletSetSyncedWith E bs (Wallet (acct w1)),
                                  dirty := True\<rparr>\<rparr>)) of
                    (err, w3) \<Rightarrow>
                      (True,
                       (if err \<noteq> None then emit (LogError ''cannot sync dirty wallet'') w3
                        else w3)))))"

text \<open>
  \<open>RescanAddresses\<close>: a fresh id, the rescan command and its encoding (either can fail,
  which is logged and ends the call), the handler's registration, and the message to
  btcd.
\<close>

definition RescanAddresses :: "'w env \<Rightarrow> int32 \<Rightarrow> string set \<Rightarrow> 'w world \<Rightarrow> 'w world" where
  "RescanAddresses E beginBlock addrs w =
     (let n = NewJSONID w;
          w1 = w\<lparr>NewJSONID := n + 1\<rparr>
      in case NewRescanCmd E n beginBlock addrs of
           Inl err \<Rightarrow> emit (LogError ''cannot create rescan request'') w1
         | Inr cmd \<Rightarrow>
             (case MarshalJSON E cmd of
                (mcmd, Some err) \<Rightarrow> emit (LogError ''cannot create rescan request'') w1
              | (mcmd, None) \<Rightarrow>
                  emit (BtcdMsg mcmd)
                    (w1\<lparr>replyHandlers := (replyHandlers w1)(n \<mapsto> RescanReplyHandler)\<rparr>)))"

text \<open>
  \<open>Track\<close> registers the two standing handlers and asks btcd for the notifications of
  every active address and every stored output.
\<close>

definition Track :: "'w env \<Rightarrow> 'w world \<Rightarrow> 'w world" where
  "Track E w =
     (let n = NewJSONID w;
          w1 = w\<lparr>NewJSONID := n + 1, acct := (acct w)\<lparr>NewBlockTxJSONID := n\<rparr>,
                 replyHandlers := (replyHandlers w)(n \<mapsto> NewBlockTxOutHandler)\<rparr>;
          w2 = fold (ReqNewTxsForAddress E) (walletActiveAddresses E (Wallet (acct w1))) w1;
          m = NewJSONID w2;
          w3 = w2\<lparr>NewJSONID := m + 1, acct := (acct w2)\<lparr>SpentOutpointJSONID := m\<rparr>,
                  replyHandlers := (replyHandlers w2)(m \<mapsto> SpentUtxoHandler)\<rparr>
      in fold (ReqSpentUtxoNtfn E) (UtxoStore_s (acct w3)) w3)"

text \<open>Calling a registered handler.\<close>

definition run_handler ::
  "'w env \<Rightarrow> Handler \<Rightarrow> json \<Rightarrow> btcjsonError option \<Rightarrow> 'w world \<Rightarrow> bool \<times> 'w world" where
  "run_handler E h result e w =
     (case h of
        NewBlockTxOutHandler \<Rightarrow> newBlockTxOutHandler E result e w
      | SpentUtxoHandler \<Rightarrow> spentUtxoHandler E result e w
      | RescanReplyHandler \<Rightarrow> rescanReplyHandler E result e w)"

text \<open>
  Modelled from the spec: the dispatch of the NotificationRouter, which is not among the
  sources. The handler registered for the id is called; when it returns false its entry
  is removed, when it returns true it stays registered.
\<close>

definition router_dispatch ::
  "'w env \<Rightarrow> uint64 \<Rightarrow> json \<Rightarrow> btcjsonError option \<Rightarrow> 'w world \<Rightarrow> 'w world" where
  "router_dispatch E n result e w =
     (case replyHandlers w n of
        None \<Rightarrow> w
      | Some h \<Rightarrow>
          (case run_handler E h result e w of
             (keepRegistered, w') \<Rightarrow>
               if keepRegistered then w'
               else w'\<lparr>replyHandlers := (replyHandlers w')(n := None)\<rparr>))"

section \<open>The confirmation rule as the specification words it\<close>

text \<open>
  The rule of the specification, read over the integers: an output counts when
  \<open>confirms\<close> is 0, or when \<open>confirms\<close> is at least 1, the output's height is not -1 and
  \<open>tipHeight - height + 1\<close> is at least \<open>confirms\<close>. It is compared with \<open>counted\<close>,
  the test of the source.
\<close>

definition claimed_counted :: "int \<Rightarrow> int \<Rightarrow> Utxo \<Rightarrow> bool" where
  "claimed_counted tipHeight confirms u =
     (confirms = 0 \<or>
      (1 \<le> confirms \<and> sint (Height u) \<noteq> - 1 \<and> confirms \<le> tipHeight - sint (Height u) + 1))"

section \<open>Concrete inputs\<close>

text \<open>
  An environment with the chain tip at height 100, a main-net wallet whose passphrase is
  the bytes 1, 2, 3, and a disk whose write returns \<open>diskErr\<close>; an account and a state
  around a given \<open>UtxoStore\<close>; and an output of a chosen height and amount.
\<close>

definition example_hash :: bytes where
  "example_hash = replicate 32 170"

definition example_env :: "error option \<Rightarrow> unit env" where
  "example_env diskErr =
     \<lparr>GetCurBlock = (\<lparr>bsHeight = 100, bsHash = replicate 32 7\<rparr>, None),
      walletUnlock = (\<lambda>passphrase wal.
        (if passphrase = [1, 2, 3] then None else Some (ExternalError ''wrong passphrase''), wal)),
      walletName = (\<lambda>wal. ''default''),
      walletNet = (\<lambda>wal. MainNet),
      walletImportPrivateKey = (\<lambda>privkey compressed bs wal. (Inr ''imported-address'', wal)),
      walletNextChainedAddress = (\<lambda>bs wal. (Inr ''next-address'', wal)),
      walletSetSyncedWith = (\<lambda>bs wal. wal),
      walletActiveAddresses = (\<lambda>wal. []),
      DecodePrivateKey = (\<lambda>wif.
        if wif = ''testnet-key'' then Inr ([9], TestNet3, True)
        else if wif = ''mainnet-key'' then Inr ([8], MainNet, True)
        else Inl (ExternalError ''malformed private key'')),
      DecodeAddress = (\<lambda>addr. Inr (replicate 20 1)),
      NewShaHashFromStr = (\<lambda>str.
        if str = replicate 64 CHR ''a'' then Inr example_hash
        else Inl (ExternalError ''bad hash string'')),
      Base58Decode = (\<lambda>str. []),
      NewRescanCmd = (\<lambda>n beginBlock addrs. Inr (RescanCmd n beginBlock addrs)),
      MarshalJSON = (\<lambda>cmd. ([], None)),
      timeNow = 0,
      writeDirtyToDisk = (\<lambda>a.
        (diskErr, if diskErr = None then a\<lparr>dirty := False\<rparr> else a))\<rparr>"

definition example_utxo :: "int32 \<Rightarrow> uint64 \<Rightarrow> Utxo" where
  "example_utxo h amt =
     \<lparr>AddrHash = replicate 20 1, Out = \<lparr>Hash = example_hash, Index = 0\<rparr>, Subscript = [],
      Amt = amt, Height = h, BlockHash = replicate 32 7\<rparr>"

definition example_account :: "Utxo list \<Rightarrow> unit Account" where
  "example_account s =
     \<lparr>Wallet = (), name = ''default'', dirty = False, fullRescan = False,
      NewBlockTxJSONID = 1, SpentOutpointJSONID = 2,
      UtxoStore_dirty = False, UtxoStore_s = s, TxStore_dirty = False, TxStore_s = []\<rparr>"

definition example_world :: "Utxo list \<Rightarrow> unit world" where
  "example_world s =
     \<lparr>acct = example_account s, addressAccountMap = Map.empty,
      replyHandlers = [1 \<mapsto> NewBlockTxOutHandler, 2 \<mapsto> SpentUtxoHandler],
      NewJSONID = 3, SendTxHistSync = {}, NotifiedRecvTx = {}, events = []\<rparr>"

text \<open>A well-formed spent-output notification for the outpoint of \<open>example_utxo\<close>.\<close>

definition spent_ntfn :: json where
  "spent_ntfn = JMap [(''txhash'', JStr (replicate 64 CHR ''a'')), (''index'', JNum 0)]"

section \<open>Facts about the balance loops\<close>

text \<open>Each loop adds to its total the amounts of the outputs that pass its test.\<close>

lemma balance_loop_sum:
  "balance_loop tip confirms us bal = bal + sum_list (map Amt (filter (counted tip confirms) us))"
  by (induction us arbitrary: bal) (simp_all add: add.assoc)

lemma address_balance_loop_sum:
  "address_balance_loop tip pk confirms us bal =
     bal + sum_list (map Amt (filter (\<lambda>u. counted tip confirms u \<and> pk = AddrHash u) us))"
  by (induction us arbitrary: bal) (simp_all add: add.assoc)

text \<open>A \<open>uint64\<close> sum is at most the sum of the numbers, and equal to it below \<open>2^64\<close>.\<close>

lemma unat_sum_list_le:
  "unat (sum_list (ws :: uint64 list)) \<le> sum_list (map unat ws)"
proof (induction ws)
  case Nil
  show ?case by simp
next
  case (Cons w ws)
  have "unat (w + sum_list ws) \<le> unat w + unat (sum_list ws)"
    by (simp add: unat_word_ariths)
  with Cons show ?case by simp
qed

lemma unat_sum_list_exact:
  "sum_list (map unat (ws :: uint64 list)) < 2 ^ 64 \<Longrightarrow>
   unat (sum_list ws) = sum_list (map unat ws)"
proof (induction ws)
  case Nil
  show ?case by simp
next
  case (Cons w ws)
  then have rest: "unat (sum_list ws) = sum_list (map unat ws)" by simp
  from Cons.prems have "unat w + unat (sum_list ws) < 2 ^ 64" by (simp add: rest)
  then have "unat (w + sum_list ws) = unat w + unat (sum_list ws)"
    by (simp add: unat_word_ariths)
  with rest show ?case by simp
qed

lemma sum_list_filter_le:
  "sum_list (map (f :: 'a \<Rightarrow> nat) (filter P xs)) \<le> sum_list (map f xs)"
  by (induction xs) simp_all

text \<open>
  The \<open>int32\<close> expression \<open>bs.Height-u.Height+1\<close> is the integer
  \<open>tipHeight - height + 1\<close> whenever that integer is an \<open>int32\<close>.
\<close>

lemma confirmations_no_wrap:
  fixes tip h :: int32
  assumes "- (2 ^ 31) \<le> sint tip - sint h + 1" "sint tip - sint h + 1 < 2 ^ 31"
  shows "sint (tip - h + 1) = sint tip - sint h + 1"
proof -
  have a: "sint (word_of_int k :: int32) = signed_take_bit 31 k" for k
    by (simp add: sint_sbintrunc')
  have "sint (tip - h + 1) = signed_take_bit 31 (sint tip - sint h + 1)"
    unfolding a [symmetric] by simp
  also have "\<dots> = sint tip - sint h + 1"
    using assms by (simp add: signed_take_bit_int_eq_self)
  finally show ?thesis .
qed

lemma height_minus_one: "((h :: int32) = - 1) = (sint h = - 1)"
proof
  assume "h = - 1"
  then show "sint h = - 1" by simp
next
  assume "sint h = - 1"
  then have "sint h = sint (- 1 :: int32)" by simp
  then show "h = - 1" by (rule signed_word_eqI)
qed

text \<open>
  For a \<open>confirms\<close> that is not negative and heights whose difference does not wrap,
  the test of the source is the rule of the specification.
\<close>

lemma counted_claimed:
  assumes "0 \<le> confirms"
    and "- (2 ^ 31) \<le> sint tip - sint (Height u) + 1"
    and "sint tip - sint (Height u) + 1 < 2 ^ 31"
  shows "counted tip confirms u = claimed_counted (sint tip) confirms u"
proof -
  have "(Height u = - 1) = (sint (Height u) = - 1)"
    by (rule height_minus_one)
  with assms show ?thesis
    by (auto simp: counted_def claimed_counted_def confirmations_no_wrap)
qed

section \<open>Facts about the handlers\<close>

text \<open>Every path through either standing handler ends in \<open>return false\<close>.\<close>

lemma spentUtxoHandler_fst: "fst (spentUtxoHandler E result e w) = False"
  by (simp add: spentUtxoHandler_def split: option.splits json.splits sum.splits)

lemma newBlockTxOutHandler_fst: "fst (newBlockTxOutHandler E result e w) = False"
  by (simp add: newBlockTxOutHandler_def split: option.splits json.splits sum.splits)


text \<open>The error of \<open>a.writeDirtyToDisk()\<close> is the collaborator's.\<close>

lemma call_writeDirtyToDisk_fst:
  "fst (call_writeDirtyToDisk E w) = fst (writeDirtyToDisk E (acct w))"
  by (simp add: call_writeDirtyToDisk_def split: prod.splits)

text \<open>
  When the rescan command can be built and encoded, \<open>RescanAddresses\<close> registers the
  rescan reply handler under the id it drew.
\<close>

lemma RescanAddresses_registers:
  assumes "NewRescanCmd E (NewJSONID w) beginBlock addrs = Inr cmd"
    and "MarshalJSON E cmd = (mcmd, None)"
  shows "replyHandlers (RescanAddresses E beginBlock addrs w) (NewJSONID w) = Some RescanReplyHandler"
  using assms by (simp add: RescanAddresses_def emit_def Let_def)

text \<open>
  When the chain tip cannot be read, the rescan reply handler leaves the account as it
  was on the result \<open>nil\<close>.
\<close>

lemma rescan_terminal_no_tip:
  assumes "GetCurBlock E = (bs, Some err)"
  shows "fst (rescanReplyHandler E JNil e w) = True \<and>
         acct (snd (rescanReplyHandler E JNil e w)) = acct w"
  using assms
  by (cases e) (simp_all add: rescanReplyHandler_def newBlockTxOutHandler_def emit_def)

text \<open>
  For a result that is not \<open>nil\<close> the rescan reply handler sends both balances, computed
  after the new-transaction handler has run, and returns \<open>false\<close>.
\<close>

lemma rescan_result_notifies:
  assumes "result \<noteq> JNil"
  shows "rescanReplyHandler E result e w =
     (False,
      emit (NotifyWalletBalanceUnconfirmed (name (acct (snd (newBlockTxOutHandler E result e w))))
              (CalculateBalance E (acct (snd (newBlockTxOutHandler E result e w))) 0 -
               CalculateBalance E (acct (snd (newBlockTxOutHandler E result e w))) 1))
        (emit (NotifyWalletBalance (name (acct (snd (newBlockTxOutHandler E result e w))))
                 (CalculateBalance E (acct (snd (newBlockTxOutHandler E result e w))) 1))
           (snd (newBlockTxOutHandler E result e w))))"
  using assms by (simp add: rescanReplyHandler_def Let_def split: prod.splits)

text \<open>
  \<open>Track\<close> registers the new-transaction handler and the spent-output handler under
  the two ids it draws; its requests to btcd touch neither the handlers nor the account.
\<close>

lemma ReqNewTxsForAddress_keeps:
  "replyHandlers (ReqNewTxsForAddress E addr w) = replyHandlers w \<and>
   NewJSONID (ReqNewTxsForAddress E addr w) = NewJSONID w \<and>
   acct (ReqNewTxsForAddress E addr w) = acct w"
  by (simp add: ReqNewTxsForAddress_def emit_def split: prod.splits)

lemma ReqSpentUtxoNtfn_keeps:
  "replyHandlers (ReqSpentUtxoNtfn E u w) = replyHandlers w \<and>
   NewJSONID (ReqSpentUtxoNtfn E u w) = NewJSONID w \<and>
   acct (ReqSpentUtxoNtfn E u w) = acct w"
  by (simp add: ReqSpentUtxoNtfn_def emit_def split: prod.splits)

lemma fold_ReqNewTxsForAddress_keeps:
  "replyHandlers (fold (ReqNewTxsForAddress E) addrs w) = replyHandlers w \<and>
   NewJSONID (fold (ReqNewTxsForAddress E) addrs w) = NewJSONID w \<and>
   acct (fold (ReqNewTxsForAddress E) addrs w) = acct w"
  by (induction addrs arbitrary: w) (simp_all add: ReqNewTxsForAddress_keeps)

lemma fold_ReqSpentUtxoNtfn_keeps:
  "replyHandlers (fold (ReqSpentUtxoNtfn E) us w) = replyHandlers w \<and>
   NewJSONID (fold (ReqSpentUtxoNtfn E) us w) = NewJSONID w \<and>
   acct (fold (ReqSpentUtxoNtfn E) us w) = acct w"
  by (induction us arbitrary: w) (simp_all add: ReqSpentUtxoNtfn_keeps)

lemma Track_registers:
  "replyHandlers (Track E w) =
     (replyHandlers w)(NewJSONID w \<mapsto> NewBlockTxOutHandler, NewJSONID w + 1 \<mapsto> SpentUtxoHandler)"
  by (simp add: Track_def Let_def fold_ReqSpentUtxoNtfn_keeps fold_ReqNewTxsForAddress_keeps)

section \<open>The balance claims\<close>

text \<open>
  Claim C4, as the code has it. With a known chain tip, \<open>CalculateBalance\<close> returns the
  sum of the amounts of exactly those stored outputs \<open>u\<close> for which \<open>confirms\<close> is 0, or
  \<open>confirms\<close> is not 0, the height of \<open>u\<close> is not -1 and \<open>confirms\<close> is at most
  \<open>tipHeight - u.Height + 1\<close> as \<open>int32\<close> arithmetic computes it;
  \<open>CalculateAddressBalance\<close> asks in addition that the address hash of \<open>u\<close> is the one
  given. A negative \<open>confirms\<close> is not a special case: the second alternative applies.
\<close>

theorem CalculateBalance_counts:
  assumes "GetCurBlock E = (bs, None)" and "bsHeight bs \<noteq> BlockHeightUnknown"
  shows "CalculateBalance E a confirms =
           satoshi_to_btc (sum_list (map Amt (filter
             (\<lambda>u. confirms = 0 \<or>
                  (confirms \<noteq> 0 \<and> Height u \<noteq> - 1 \<and>
                   confirms \<le> sint (bsHeight bs - Height u + 1)))
             (UtxoStore_s a)))) \<and>
         CalculateAddressBalance E a pubkeyHash confirms =
           satoshi_to_btc (sum_list (map Amt (filter
             (\<lambda>u. (confirms = 0 \<or>
                   (confirms \<noteq> 0 \<and> Height u \<noteq> - 1 \<and>
                    confirms \<le> sint (bsHeight bs - Height u + 1))) \<and>
                  pubkeyHash = AddrHash u)
             (UtxoStore_s a))))"
proof -
  have c: "counted (bsHeight bs) confirms =
      (\<lambda>u. confirms = 0 \<or>
           (confirms \<noteq> 0 \<and> Height u \<noteq> - 1 \<and> confirms \<le> sint (bsHeight bs - Height u + 1)))"
    by (auto simp: counted_def fun_eq_iff)
  show ?thesis
    using assms
    by (simp add: CalculateBalance_def CalculateAddressBalance_def balance_loop_sum
        address_balance_loop_sum c)
qed

theorem CalculateBalance_counts_witness:
  "CalculateBalance (example_env None) (example_account [example_utxo 95 5, example_utxo (- 1) 3]) 1
     = 5 / 100000000 \<and>
   CalculateAddressBalance (example_env None)
     (example_account [example_utxo 95 5, example_utxo (- 1) 3]) (replicate 20 1) 1
     = 5 / 100000000"
  using CalculateBalance_counts [of "example_env None" "\<lparr>bsHeight = 100, bsHash = replicate 32 7\<rparr>"
      "example_account [example_utxo 95 5, example_utxo (- 1) 3]" 1 "replicate 20 1"]
  by (simp add: example_env_def example_account_def example_utxo_def BlockHeightUnknown_def
      satoshi_to_btc_def SatoshiPerBitcoin_def)

text \<open>
  Claim C4 as stated fails for a negative \<open>confirms\<close>: with the tip at height 100 and one
  output of 5 satoshi at height 95, \<open>CalculateBalance(-1)\<close> counts the output, which the
  stated rule excludes.
\<close>

theorem negative_confirms_counterexample:
  "CalculateBalance (example_env None) (example_account [example_utxo 95 5]) (- 1) = 5 / 100000000 \<and>
   \<not> claimed_counted 100 (- 1) (example_utxo 95 5)"
  by (simp add: CalculateBalance_def example_env_def example_account_def example_utxo_def
      BlockHeightUnknown_def satoshi_to_btc_def SatoshiPerBitcoin_def counted_def
      claimed_counted_def)

text \<open>
  Claim C6, as the code has it. With the tip at height 100 and a store of output A
  (height 95, 5 satoshi) and output B (height -1, 3 satoshi), the sums are 8, 5 and 0
  satoshi, and \<open>CalculateBalance\<close> returns them divided by \<open>SatoshiPerBitcoin\<close>:
  \<open>8 / 10^8\<close> for 0 confirmations, \<open>5 / 10^8\<close> for 1 and 0 for 10.
\<close>

theorem scenario_balances:
  assumes "GetCurBlock E = (bs, None)" and "bsHeight bs = 100"
    and "UtxoStore_s a = [A, B]"
    and "Height A = 95" and "Amt A = 5" and "Height B = - 1" and "Amt B = 3"
  shows "CalculateBalance E a 0 = 8 / SatoshiPerBitcoin \<and>
         CalculateBalance E a 1 = 5 / SatoshiPerBitcoin \<and>
         CalculateBalance E a 10 = 0"
  using assms
  by (simp add: CalculateBalance_def BlockHeightUnknown_def satoshi_to_btc_def counted_def)

theorem scenario_balances_witness:
  "CalculateBalance (example_env None) (example_account [example_utxo 95 5, example_utxo (- 1) 3]) 0
     = 8 / SatoshiPerBitcoin \<and>
   CalculateBalance (example_env None) (example_account [example_utxo 95 5, example_utxo (- 1) 3]) 1
     = 5 / SatoshiPerBitcoin \<and>
   CalculateBalance (example_env None) (example_account [example_utxo 95 5, example_utxo (- 1) 3]) 10
     = 0"
  using scenario_balances [of "example_env None" "\<lparr>bsHeight = 100, bsHash = replicate 32 7\<rparr>"
      "example_account [example_utxo 95 5, example_utxo (- 1) 3]"
      "example_utxo 95 5" "example_utxo (- 1) 3"]
  by (simp add: example_env_def example_account_def example_utxo_def)

text \<open>
  Claim C6 as stated fails: in that scenario \<open>CalculateBalance(0)\<close> returns \<open>8 / 10^8\<close>,
  the 8 satoshi in bitcoin, and not 8.
\<close>

theorem scenario_counterexample:
  "CalculateBalance (example_env None) (example_account [example_utxo 95 5, example_utxo (- 1) 3]) 0
     = 8 / 100000000 \<and>
   CalculateBalance (example_env None) (example_account [example_utxo 95 5, example_utxo (- 1) 3]) 0
     \<noteq> 8"
  by (simp add: CalculateBalance_def example_env_def example_account_def example_utxo_def
      BlockHeightUnknown_def satoshi_to_btc_def SatoshiPerBitcoin_def counted_def)

text \<open>
  Claim C8, as the code has it. When the amounts of all stored outputs add up to less
  than \<open>2^64\<close> satoshi, \<open>CalculateBalance(confirms)\<close> is at most \<open>CalculateBalance(0)\<close>
  for every \<open>confirms\<close> of at least 1, whatever the chain tip.
\<close>

theorem CalculateBalance_dominated:
  assumes "sum_list (map (\<lambda>u. unat (Amt u)) (UtxoStore_s a)) < 2 ^ 64" and "1 \<le> confirms"
  shows "CalculateBalance E a confirms \<le> CalculateBalance E a 0"
proof -
  obtain bs err where g: "GetCurBlock E = (bs, err)" by (cases "GetCurBlock E")
  let ?s = "UtxoStore_s a"
  let ?P = "counted (bsHeight bs) confirms"
  have all: "filter (counted (bsHeight bs) 0) ?s = ?s"
    by (simp add: counted_def)
  have "unat (sum_list (map Amt (filter ?P ?s))) \<le> sum_list (map unat (map Amt (filter ?P ?s)))"
    by (rule unat_sum_list_le)
  also have "\<dots> = sum_list (map (\<lambda>u. unat (Amt u)) (filter ?P ?s))"
    by (simp add: comp_def)
  also have "\<dots> \<le> sum_list (map (\<lambda>u. unat (Amt u)) ?s)"
    by (rule sum_list_filter_le)
  also have "\<dots> = unat (sum_list (map Amt ?s))"
    using assms(1) unat_sum_list_exact [of "map Amt ?s"] by (simp add: comp_def)
  finally have "unat (balance_loop (bsHeight bs) confirms ?s 0)
      \<le> unat (balance_loop (bsHeight bs) 0 ?s 0)"
    by (simp add: balance_loop_sum all)
  then have "real (unat (balance_loop (bsHeight bs) confirms ?s 0))
      \<le> real (unat (balance_loop (bsHeight bs) 0 ?s 0))"
    by (simp only: of_nat_le_iff)
  then have "satoshi_to_btc (balance_loop (bsHeight bs) confirms ?s 0)
      \<le> satoshi_to_btc (balance_loop (bsHeight bs) 0 ?s 0)"
    unfolding satoshi_to_btc_def
    by (rule divide_right_mono) (simp add: SatoshiPerBitcoin_def)
  then show ?thesis
    by (simp add: CalculateBalance_def g)
qed

theorem CalculateBalance_dominated_witness:
  "CalculateBalance (example_env None) (example_account [example_utxo 95 5, example_utxo (- 1) 3]) 1
     \<le> CalculateBalance (example_env None)
          (example_account [example_utxo 95 5, example_utxo (- 1) 3]) 0"
  using CalculateBalance_dominated [of "example_account [example_utxo 95 5, example_utxo (- 1) 3]" 1
      "example_env None"]
  by (simp add: example_account_def example_utxo_def)

text \<open>
  Claim C8 as stated fails when the \<open>uint64\<close> total wraps: with an output of
  \<open>2^64 - 1\<close> satoshi at height 95 and an unconfirmed output of 1 satoshi,
  \<open>CalculateBalance(1)\<close> is positive and \<open>CalculateBalance(0)\<close> is 0.
\<close>

theorem overflow_counterexample:
  "CalculateBalance (example_env None)
     (example_account [example_utxo 95 18446744073709551615, example_utxo (- 1) 1]) 1
     = 18446744073709551615 / 100000000 \<and>
   CalculateBalance (example_env None)
     (example_account [example_utxo 95 18446744073709551615, example_utxo (- 1) 1]) 0 = 0"
  by (simp add: CalculateBalance_def example_env_def example_account_def example_utxo_def
      BlockHeightUnknown_def satoshi_to_btc_def SatoshiPerBitcoin_def counted_def)

section \<open>The spent-output handler and the balances\<close>



section \<open>What the standing handlers return\<close>

text \<open>
  Claim C5, as the code has it. For every result and every error, malformed ones
  included, the new-transaction handler and the spent-output handler return \<open>false\<close>.
  The source calls this never removing the handler; of the rescan handler it says that
  returning \<open>true\<close> removes it.
\<close>

theorem standing_handlers_return_false:
  "fst (newBlockTxOutHandler E result e w) = False \<and> fst (spentUtxoHandler E result e w) = False"
  by (simp add: spentUtxoHandler_fst newBlockTxOutHandler_fst)

text \<open>
  Claim C5 as stated fails: under the convention it names, where returning false
  removes the entry, the value that keeps a handler registered is \<open>true\<close>, and both
  handlers return \<open>false\<close>. Dispatched by a router of that convention, each of the two
  registered handlers is gone after one notification.
\<close>

theorem keep_registered_counterexample:
  "replyHandlers (example_world [example_utxo 95 5]) 2 = Some SpentUtxoHandler \<and>
   fst (spentUtxoHandler (example_env None) spent_ntfn None (example_world [example_utxo 95 5]))
     = False \<and>
   replyHandlers (router_dispatch (example_env None) 2 spent_ntfn None
     (example_world [example_utxo 95 5])) 2 = None \<and>
   replyHandlers (example_world [example_utxo 95 5]) 1 = Some NewBlockTxOutHandler \<and>
   fst (newBlockTxOutHandler (example_env None) JNil None (example_world [example_utxo 95 5]))
     = False \<and>
   replyHandlers (router_dispatch (example_env None) 1 JNil None
     (example_world [example_utxo 95 5])) 1 = None"
  by (simp add: router_dispatch_def run_handler_def spentUtxoHandler_def newBlockTxOutHandler_def
      spent_ntfn_def as_string_def as_float64_def
      example_env_def example_world_def)

section \<open>Importing a key of another network\<close>

text \<open>
  Claim C7. When the WIF string decodes and the decoded network is not the network of
  the account's wallet, \<open>ImportWIFPrivateKey\<close> returns the wrong-network error and
  leaves the state as it was: \<open>addressAccountMap\<close> is unchanged and every lookup in it
  answers as before.
\<close>

theorem wrong_network_import:
  assumes "DecodePrivateKey E wif = Inr (privkey, net, compressed)"
    and "net \<noteq> walletNet E (Wallet (acct w))"
  shows "ImportWIFPrivateKey E wif bs w = (Inl ErrWrongNetwork, w) \<and>
         addressAccountMap (snd (ImportWIFPrivateKey E wif bs w)) = addressAccountMap w \<and>
         LookupAccountByAddress address (snd (ImportWIFPrivateKey E wif bs w)) =
           LookupAccountByAddress address w"
  using assms by (simp add: ImportWIFPrivateKey_def)

theorem wrong_network_import_witness:
  "ImportWIFPrivateKey (example_env None) ''testnet-key'' \<lparr>bsHeight = 0, bsHash = []\<rparr>
     (example_world []) = (Inl ErrWrongNetwork, example_world []) \<and>
   addressAccountMap (snd (ImportWIFPrivateKey (example_env None) ''testnet-key''
     \<lparr>bsHeight = 0, bsHash = []\<rparr> (example_world []))) = Map.empty"
  using wrong_network_import [of "example_env None" "''testnet-key''" "[9]" TestNet3 True
      "example_world []" "\<lparr>bsHeight = 0, bsHash = []\<rparr>" "''x''"]
  by (simp add: example_env_def example_world_def)

section \<open>Unlock\<close>

text \<open>
  Claim C10. \<open>Account.Unlock\<close> calls the wallet's unlock operation twice with the
  passphrase it was given, the second time on the wallet as the first call left it; it
  sends the lock-state notification between the two calls exactly when the first call
  returned no error; and it returns what the second call returned. The timeout plays no
  part.
\<close>

theorem Unlock_twice:
  assumes "walletUnlock E passphrase (Wallet (acct w)) = (err1, wal1)"
    and "walletUnlock E passphrase wal1 = (err2, wal2)"
  shows "fst (Unlock E passphrase timeout w) = err2 \<and>
         Wallet (acct (snd (Unlock E passphrase timeout w))) = wal2 \<and>
         events (snd (Unlock E passphrase timeout w)) =
           events w @ [WalletUnlockCall passphrase] @
           (if err1 = None then [NotifyWalletLockStateChange (walletName E wal1) False] else []) @
           [WalletUnlockCall passphrase]"
  using assms by (simp add: Unlock_def call_walletUnlock_def emit_def)

theorem Unlock_twice_witness:
  "fst (Unlock (example_env None) [1, 2, 3] 60 (example_world [])) = None \<and>
   events (snd (Unlock (example_env None) [1, 2, 3] 60 (example_world []))) =
     [WalletUnlockCall [1, 2, 3], NotifyWalletLockStateChange ''default'' False,
      WalletUnlockCall [1, 2, 3]]"
  using Unlock_twice [of "example_env None" "[1, 2, 3]" "example_world []" None "()" None "()" 60]
  by (simp add: example_env_def example_world_def example_account_def)

section \<open>A failed write to disk\<close>

text \<open>
  Claim C2, at the write each operation makes. Both operations mark the account dirty
  and call \<open>writeDirtyToDisk\<close> on it. When that write returns an error,
  \<open>ImportWIFPrivateKey\<close> returns the error to its caller, wrapped as the import's
  failure, and does not mark the address. \<open>NewAddress\<close>, in the same place of the same
  sequence, logs the error and goes on: it marks the address for the account and
  returns the address and no error, where the claim has it return an error.
\<close>

theorem persistence_failure_results:
  assumes "DecodePrivateKey E wif = Inr (privkey, net, compressed)"
    and "net = walletNet E (Wallet (acct w))"
    and "walletImportPrivateKey E privkey compressed bs (Wallet (acct w)) = (Inr iaddr, iwal)"
    and "writeDirtyToDisk E ((acct w)\<lparr>Wallet := iwal, dirty := True\<rparr>) = (Some ierr, ia)"
    and "GetCurBlock E = (tip, None)"
    and "walletNextChainedAddress E tip (Wallet (acct w)) = (Inr addr, wal)"
    and "writeDirtyToDisk E ((acct w)\<lparr>Wallet := wal, dirty := True\<rparr>) = (Some derr, a')"
  shows "fst (ImportWIFPrivateKey E wif bs w) = Inl (ErrImportFailed ierr) \<and>
         addressAccountMap (snd (ImportWIFPrivateKey E wif bs w)) = addressAccountMap w \<and>
         fst (NewAddress E w) = Inr addr \<and>
         addressAccountMap (snd (NewAddress E w)) =
           (addressAccountMap w)(addr \<mapsto> walletName E (Wallet a')) \<and>
         LogError ''cannot sync dirty wallet'' \<in> set (events (snd (NewAddress E w)))"
proof -
  have iw: "call_writeDirtyToDisk E (w\<lparr>acct := (acct w)\<lparr>Wallet := iwal, dirty := True\<rparr>\<rparr>) =
      (Some ierr, emit WriteDirtyToDiskCall (w\<lparr>acct := ia\<rparr>))"
    using assms(4) by (simp add: call_writeDirtyToDisk_def)
  have nw: "call_writeDirtyToDisk E (w\<lparr>acct := (acct w)\<lparr>Wallet := wal, dirty := True\<rparr>\<rparr>) =
      (Some derr, emit WriteDirtyToDiskCall (w\<lparr>acct := a'\<rparr>))"
    using assms(7) by (simp add: call_writeDirtyToDisk_def)
  have imp: "ImportWIFPrivateKey E wif bs w =
      (Inl (ErrImportFailed ierr),
       emit (LogError ''cannot write dirty wallet'') (emit WriteDirtyToDiskCall (w\<lparr>acct := ia\<rparr>)))"
    using assms(1,2,3) by (simp add: ImportWIFPrivateKey_def iw)
  have new: "NewAddress E w =
      (Inr addr,
       ReqNewTxsForAddress E addr
         (MarkAddressForAccount addr (walletName E (Wallet a'))
            (emit (LogError ''cannot sync dirty wallet'')
               (emit WriteDirtyToDiskCall (w\<lparr>acct := a'\<rparr>)))))"
    using assms(5,6) by (simp add: NewAddress_def nw emit_def)
  show ?thesis
    by (simp add: imp new emit_def ReqNewTxsForAddress_def MarkAddressForAccount_def
        split: prod.splits)
qed

text \<open>
  The input at which \<open>NewAddress\<close> departs from claim C2: the write of the dirty
  account returns the error \<open>disk full\<close>; \<open>ImportWIFPrivateKey\<close> returns that error,
  and \<open>NewAddress\<close> returns the address \<open>next-address\<close> with no error and has marked it
  for the account.
\<close>

theorem persistence_failure_results_witness:
  "writeDirtyToDisk (example_env (Some (ExternalError ''disk full'')))
     ((example_account [])\<lparr>dirty := True\<rparr>)
     = (Some (ExternalError ''disk full''), (example_account [])\<lparr>dirty := True\<rparr>) \<and>
   fst (ImportWIFPrivateKey (example_env (Some (ExternalError ''disk full''))) ''mainnet-key''
      \<lparr>bsHeight = 0, bsHash = []\<rparr> (example_world []))
     = Inl (ErrImportFailed (ExternalError ''disk full'')) \<and>
   fst (NewAddress (example_env (Some (ExternalError ''disk full''))) (example_world []))
     = Inr ''next-address'' \<and>
   addressAccountMap (snd (NewAddress (example_env (Some (ExternalError ''disk full'')))
      (example_world []))) ''next-address'' = Some ''default''"
  using persistence_failure_results [where E = "example_env (Some (ExternalError ''disk full''))"
      and wif = "''mainnet-key''" and privkey = "[8]" and net = MainNet and compressed = True
      and w = "example_world []" and bs = "\<lparr>bsHeight = 0, bsHash = []\<rparr>"
      and iaddr = "''imported-address''" and iwal = "()"
      and ierr = "ExternalError ''disk full''"
      and ia = "(example_account [])\<lparr>dirty := True\<rparr>"
      and tip = "\<lparr>bsHeight = 100, bsHash = replicate 32 7\<rparr>"
      and addr = "''next-address''" and wal = "()"
      and derr = "ExternalError ''disk full''"
      and a' = "(example_account [])\<lparr>dirty := True\<rparr>"]
  by (simp add: example_env_def example_world_def example_account_def)

section \<open>The end of a rescan\<close>

text \<open>
  Claim C3, as the code has it. On the result \<open>nil\<close>, with the chain tip available, the
  rescan reply handler sets the wallet's synced-with block to the tip, marks the
  account dirty, writes the dirty state to disk (a failure of the write is logged) and
  returns \<open>true\<close>. It sends nothing else: no balance is computed or notified. The
  events it adds are the log line of a btcd error, if there was one, the call that sets
  the synced-with block, the write, and the log line of a failed write.
\<close>

theorem rescan_terminal_result:
  assumes "GetCurBlock E = (bs, None)"
  shows "fst (rescanReplyHandler E JNil e w) = True \<and>
         acct (snd (rescanReplyHandler E JNil e w)) =
           snd (writeDirtyToDisk E
             ((acct w)\<lparr>Wallet := walletSetSyncedWith E bs (Wallet (acct w)), dirty := True\<rparr>)) \<and>
         events (snd (rescanReplyHandler E JNil e w)) =
           events w @
           (if e = None then [] else [LogError ''Tx Handler: Error received from btcd'']) @
           [WalletSetSyncedWithCall bs, WriteDirtyToDiskCall] @
           (if fst (writeDirtyToDisk E
                 ((acct w)\<lparr>Wallet := walletSetSyncedWith E bs (Wallet (acct w)), dirty := True\<rparr>))
               = None
            then [] else [LogError ''cannot sync dirty wallet''])"
proof -
  obtain derr a' where d: "writeDirtyToDisk E
      ((acct w)\<lparr>Wallet := walletSetSyncedWith E bs (Wallet (acct w)), dirty := True\<rparr>) = (derr, a')"
    by (cases "writeDirtyToDisk E
      ((acct w)\<lparr>Wallet := walletSetSyncedWith E bs (Wallet (acct w)), dirty := True\<rparr>)")
  show ?thesis
    using assms d
    by (cases e; cases derr)
       (simp_all add: rescanReplyHandler_def newBlockTxOutHandler_def call_writeDirtyToDisk_def
          emit_def)
qed

theorem rescan_terminal_result_witness:
  "fst (rescanReplyHandler (example_env None) JNil None (example_world [example_utxo 95 5])) = True \<and>
   dirty (acct (snd (rescanReplyHandler (example_env None) JNil None
     (example_world [example_utxo 95 5])))) = False"
  using rescan_terminal_result [of "example_env None" "\<lparr>bsHeight = 100, bsHash = replicate 32 7\<rparr>"
      None "example_world [example_utxo 95 5]"]
  by (simp add: example_env_def example_world_def example_account_def)

text \<open>
  Claim C3 as stated fails: on the result \<open>nil\<close> the handler sends the frontends no
  balance. With one stored output and the tip at height 100, the only events are the
  call that sets the synced-with block and the write to disk.
\<close>

theorem rescan_terminal_counterexample:
  "events (snd (rescanReplyHandler (example_env None) JNil None (example_world [example_utxo 95 5])))
     = [WalletSetSyncedWithCall \<lparr>bsHeight = 100, bsHash = replicate 32 7\<rparr>, WriteDirtyToDiskCall]"
  by (simp add: rescanReplyHandler_def newBlockTxOutHandler_def call_writeDirtyToDisk_def
      emit_def example_env_def example_world_def)

end
